theory Spec2Isabelle
  imports Complex_Main "HOL-Library.AList"
begin

section \<open>JavaScript values and strings\<close>

text \<open>
  The dispatcher of \<^verbatim>\<open>src/services/webhookDispatcher.js\<close> works on JSON-like values
  (the workflow context, request bodies, response bodies).  \<open>undefined\<close> is the
  \<open>None\<close> of an option type wherever the source can meet it.  An object is its list of
  entries (its own enumerable properties).  \<open>JFunction name\<close> is a built-in function
  of that name, which a property read can reach through a prototype.
\<close>

datatype jsval =
    JNull
  | JBool bool
  | JNum real
  | JStr string
  | JArr "jsval list"
  | JObj "(string \<times> jsval) list"
  | JFunction string

text \<open>Truthiness, as \<^verbatim>\<open>if (x)\<close> and \<^verbatim>\<open>!x\<close> read a value.\<close>

fun truthy :: "jsval \<Rightarrow> bool" where
  "truthy JNull = False"
| "truthy (JBool b) = b"
| "truthy (JNum n) = (n \<noteq> 0)"
| "truthy (JStr s) = (s \<noteq> [])"
| "truthy (JArr _) = True"
| "truthy (JObj _) = True"
| "truthy (JFunction _) = True"

text \<open>\<^verbatim>\<open>typeof v === 'object'\<close>: objects, arrays and \<open>null\<close>.\<close>

fun typeof_object :: "jsval \<Rightarrow> bool" where
  "typeof_object JNull = True"
| "typeof_object (JArr _) = True"
| "typeof_object (JObj _) = True"
| "typeof_object _ = False"

definition startsWith :: "string \<Rightarrow> string \<Rightarrow> bool" where
  "startsWith s p = (take (length p) s = p)"

fun includes_str :: "string \<Rightarrow> string \<Rightarrow> bool" where
  "includes_str [] sub = (sub = [])"
| "includes_str (c # cs) sub = (startsWith (c # cs) sub \<or> includes_str cs sub)"

definition toLowerCase_char :: "char \<Rightarrow> char" where
  "toLowerCase_char c =
     (case map_of (zip ''ABCDEFGHIJKLMNOPQRSTUVWXYZ'' ''abcdefghijklmnopqrstuvwxyz'') c of
        Some d \<Rightarrow> d | None \<Rightarrow> c)"

definition toUpperCase_char :: "char \<Rightarrow> char" where
  "toUpperCase_char c =
     (case map_of (zip ''abcdefghijklmnopqrstuvwxyz'' ''ABCDEFGHIJKLMNOPQRSTUVWXYZ'') c of
        Some d \<Rightarrow> d | None \<Rightarrow> c)"

definition toLowerCase :: "string \<Rightarrow> string" where
  "toLowerCase s = map toLowerCase_char s"

definition toUpperCase :: "string \<Rightarrow> string" where
  "toUpperCase s = map toUpperCase_char s"

definition is_digit :: "char \<Rightarrow> bool" where
  "is_digit c = (c \<in> set ''0123456789'')"

text \<open>\<^verbatim>\<open>\w\<close> of a JavaScript regular expression: letters, digits and the underscore.\<close>

definition is_word_char :: "char \<Rightarrow> bool" where
  "is_word_char c =
     (c \<in> set ''abcdefghijklmnopqrstuvwxyzABCDEFGHIJKLMNOPQRSTUVWXYZ0123456789_'')"

section \<open>Regular expressions of the URL guard\<close>

text \<open>
  The patterns of \<^verbatim>\<open>BLOCKED_IP_PATTERNS\<close> use literals, character ranges, \<^verbatim>\<open>\d\<close>,
  alternation, sequencing and bounded repetition.  \<open>rx_match r s\<close> lists what is left
  of \<open>s\<close> after each way \<open>r\<close> matches a prefix of it.
\<close>

datatype rx =
    Str string
  | Rng char char
  | Digit
  | Seq rx rx
  | Alt rx rx
  | Rep nat nat rx

primrec rep_iter :: "(string \<Rightarrow> string list) \<Rightarrow> nat \<Rightarrow> nat \<Rightarrow> string \<Rightarrow> string list" where
  "rep_iter f lo 0 s = (if lo = 0 then [s] else [])"
| "rep_iter f lo (Suc hi) s =
     concat (map (rep_iter f (lo - 1) hi) (f s)) @ (if lo = 0 then [s] else [])"

fun rx_match :: "rx \<Rightarrow> string \<Rightarrow> string list" where
  "rx_match (Str p) s = (if startsWith s p then [drop (length p) s] else [])"
| "rx_match (Rng a b) s =
     (case s of [] \<Rightarrow> []
      | c # cs \<Rightarrow> if (of_char a :: nat) \<le> of_char c \<and> (of_char c :: nat) \<le> of_char b
                  then [cs] else [])"
| "rx_match Digit s = (case s of [] \<Rightarrow> [] | c # cs \<Rightarrow> if is_digit c then [cs] else [])"
| "rx_match (Seq r1 r2) s = concat (map (rx_match r2) (rx_match r1 s))"
| "rx_match (Alt r1 r2) s = rx_match r1 s @ rx_match r2 s"
| "rx_match (Rep lo hi r) s = rep_iter (rx_match r) lo hi s"

text \<open>
  A pattern of the source is anchored at the start (\<^verbatim>\<open>^\<close>), may be anchored at the end
  (\<^verbatim>\<open>$\<close>) and may carry the flag \<^verbatim>\<open>i\<close>.  \<open>regex_test\<close> is \<^verbatim>\<open>pattern.test(s)\<close>.
\<close>

record regex =
  rx_body :: rx
  rx_to_end :: bool
  rx_icase :: bool

fun fold_case :: "rx \<Rightarrow> rx" where
  "fold_case (Str p) = Str (toLowerCase p)"
| "fold_case (Rng a b) = Rng (toLowerCase_char a) (toLowerCase_char b)"
| "fold_case Digit = Digit"
| "fold_case (Seq r1 r2) = Seq (fold_case r1) (fold_case r2)"
| "fold_case (Alt r1 r2) = Alt (fold_case r1) (fold_case r2)"
| "fold_case (Rep lo hi r) = Rep lo hi (fold_case r)"

definition regex_test :: "regex \<Rightarrow> string \<Rightarrow> bool" where
  "regex_test p s =
     (let rests = (if rx_icase p then rx_match (fold_case (rx_body p)) (toLowerCase s)
                   else rx_match (rx_body p) s)
      in if rx_to_end p then [] \<in> set rests else rests \<noteq> [])"

definition rx_start :: "rx \<Rightarrow> regex" where
  "rx_start r = \<lparr>rx_body = r, rx_to_end = False, rx_icase = False\<rparr>"

definition rx_start_i :: "rx \<Rightarrow> regex" where
  "rx_start_i r = \<lparr>rx_body = r, rx_to_end = False, rx_icase = True\<rparr>"

definition rx_whole :: "rx \<Rightarrow> regex" where
  "rx_whole r = \<lparr>rx_body = r, rx_to_end = True, rx_icase = False\<rparr>"

section \<open>URL guard\<close>

text \<open>
  \<^verbatim>\<open>BLOCKED_IP_PATTERNS\<close>, in the order of the source, each with the comment the source
  gives it.
\<close>

definition BLOCKED_IP_PATTERNS :: "regex list" where
  "BLOCKED_IP_PATTERNS =
    [ rx_start (Str ''127.''),       \<comment> \<open>Loopback (127.0.0.0/8)\<close>
      rx_start (Str ''10.''),        \<comment> \<open>Private Class A (10.0.0.0/8)\<close>
      rx_start (Seq (Str ''172.'')
        (Seq (Alt (Seq (Str ''1'') (Rng CHR ''6'' CHR ''9''))
             (Alt (Seq (Str ''2'') (Rng CHR ''0'' CHR ''9''))
                  (Seq (Str ''3'') (Rng CHR ''0'' CHR ''1''))))
             (Str ''.''))),          \<comment> \<open>Private Class B (172.16.0.0/12)\<close>
      rx_start (Str ''192.168.''),   \<comment> \<open>Private Class C (192.168.0.0/16)\<close>
      rx_start (Str ''169.254.''),   \<comment> \<open>Link-local (169.254.0.0/16)\<close>
      rx_start (Str ''0.''),         \<comment> \<open>Current network (0.0.0.0/8)\<close>
      rx_start (Seq (Str ''100.'')
        (Seq (Alt (Seq (Str ''6'') (Rng CHR ''4'' CHR ''9''))
             (Alt (Seq (Rng CHR ''7'' CHR ''9'') (Rng CHR ''0'' CHR ''9''))
                  (Seq (Str ''1'') (Seq (Rng CHR ''0'' CHR ''2'') (Rng CHR ''0'' CHR ''7'')))))
             (Str ''.''))),          \<comment> \<open>Carrier-grade NAT (100.64.0.0/10)\<close>
      rx_start (Str ''192.0.0.''),   \<comment> \<open>IETF Protocol Assignments (192.0.0.0/24)\<close>
      rx_start (Str ''192.0.2.''),   \<comment> \<open>TEST-NET-1 (192.0.2.0/24)\<close>
      rx_start (Str ''198.51.100.''),\<comment> \<open>TEST-NET-2 (198.51.100.0/24)\<close>
      rx_start (Str ''203.0.113.''), \<comment> \<open>TEST-NET-3 (203.0.113.0/24)\<close>
      rx_start (Str ''224.''),       \<comment> \<open>Multicast (224.0.0.0/4)\<close>
      rx_start (Str ''240.''),       \<comment> \<open>Reserved (240.0.0.0/4)\<close>
      rx_start (Str ''255.''),       \<comment> \<open>Broadcast\<close>
      rx_whole (Str ''::1''),        \<comment> \<open>IPv6 loopback\<close>
      rx_start_i (Str ''fc00:''),    \<comment> \<open>IPv6 unique local\<close>
      rx_start_i (Str ''fe80:'')     \<comment> \<open>IPv6 link-local\<close>
    ]"

definition BLOCKED_HOSTNAMES :: "string list" where
  "BLOCKED_HOSTNAMES =
    [ ''localhost'', ''localhost.localdomain'', ''127.0.0.1'', ''0.0.0.0'', ''::1'', ''[::1]'',
      ''metadata.google.internal'', ''169.254.169.254'', ''metadata.azure.com'' ]"

text \<open>\<^verbatim>\<open>/^(\d{1,3})\.(\d{1,3})\.(\d{1,3})\.(\d{1,3})$/\<close>, the test for a dotted quad.\<close>

definition ipv4_pattern :: regex where
  "ipv4_pattern =
     rx_whole (Seq (Rep 1 3 Digit) (Seq (Str ''.'') (Seq (Rep 1 3 Digit) (Seq (Str ''.'')
              (Seq (Rep 1 3 Digit) (Seq (Str ''.'') (Rep 1 3 Digit)))))))"

text \<open>
  What \<^verbatim>\<open>new URL(urlString)\<close> gives the guard: the fields it reads.  The parser is
  Node's, not this repository's, so the guard takes it as a parameter; \<open>None\<close> is the
  \<^verbatim>\<open>TypeError\<close> of an unparsable URL.
\<close>

record parsed_url =
  protocol :: string
  hostname :: string
  username :: string
  password :: string

type_synonym url_parser = "string \<Rightarrow> parsed_url option"

datatype url_error =
    UrlRequired
  | InvalidUrlFormat
  | ProtocolNotAllowed string
  | HostnameNotAllowed string
  | IpBlockedRange string
  | Ipv6BlockedRange string
  | CredentialsNotAllowed

record validation =
  valid :: bool
  error :: "url_error option"

definition invalid :: "url_error \<Rightarrow> validation" where
  "invalid e = \<lparr>valid = False, error = Some e\<rparr>"

definition validateWebhookUrl :: "url_parser \<Rightarrow> string \<Rightarrow> validation" where
  "validateWebhookUrl parseURL urlString =
    (if urlString = [] then invalid UrlRequired
     else case parseURL urlString of
       None \<Rightarrow> invalid InvalidUrlFormat
     | Some parsedUrl \<Rightarrow>
        if protocol parsedUrl \<notin> set [''http:'', ''https:'']
        then invalid (ProtocolNotAllowed (protocol parsedUrl))
        else let hostname = toLowerCase (hostname parsedUrl) in
          if hostname \<in> set BLOCKED_HOSTNAMES then invalid (HostnameNotAllowed hostname)
          else if regex_test ipv4_pattern hostname
                  \<and> list_ex (\<lambda>pattern. regex_test pattern hostname) BLOCKED_IP_PATTERNS
          then invalid (IpBlockedRange hostname)
          else if (startsWith hostname ''['' \<or> CHR '':'' \<in> set hostname)
                  \<and> list_ex (\<lambda>pattern. regex_test pattern hostname) BLOCKED_IP_PATTERNS
          then invalid (Ipv6BlockedRange hostname)
          else if username parsedUrl \<noteq> [] \<or> password parsedUrl \<noteq> []
          then invalid CredentialsNotAllowed
          else \<lparr>valid = True, error = None\<rparr>)"

section \<open>Template renderer\<close>

text \<open>
  \<^verbatim>\<open>Handlebars.compile(template, {noEscape: true})(context)\<close> is a library call; the
  renderer takes it as a parameter.  \<open>None\<close> is an exception thrown by the library.
\<close>

type_synonym handlebars = "string \<Rightarrow> jsval \<Rightarrow> string option"

definition processTemplate :: "handlebars \<Rightarrow> string \<Rightarrow> jsval \<Rightarrow> string" where
  "processTemplate hb template context =
     (if template = [] then template
      else case hb template context of
             Some rendered \<Rightarrow> rendered
           | None \<Rightarrow> template)"

text \<open>
  \<^verbatim>\<open>processObjectTemplates\<close>: a value that is falsy or not an object is returned as it
  is (a string too); an array is mapped; an object gets its string values rendered and
  its object values processed.  The entries of an object have distinct keys, so assigning
  them one by one to a fresh object is mapping over them.
\<close>

fun processObjectTemplates :: "handlebars \<Rightarrow> jsval \<Rightarrow> jsval \<Rightarrow> jsval" where
  "processObjectTemplates hb (JArr items) context =
     JArr (map (\<lambda>item. processObjectTemplates hb item context) items)"
| "processObjectTemplates hb (JObj entries) context =
     JObj (map (\<lambda>(key, v).
        (key, case v of
                JStr s \<Rightarrow> JStr (processTemplate hb s context)
              | JNull \<Rightarrow> processObjectTemplates hb v context
              | JArr _ \<Rightarrow> processObjectTemplates hb v context
              | JObj _ \<Rightarrow> processObjectTemplates hb v context
              | _ \<Rightarrow> v)) entries)"
| "processObjectTemplates hb obj context = obj"

section \<open>Request builder and single-attempt executor\<close>

definition digit_char :: "nat \<Rightarrow> char" where
  "digit_char d = ''0123456789'' ! d"

fun string_of_nat :: "nat \<Rightarrow> string" where
  "string_of_nat n =
     (if n < 10 then [digit_char n] else string_of_nat (n div 10) @ [digit_char (n mod 10)])"

declare string_of_nat.simps [simp del]

text \<open>The own enumerable properties that an object spread \<^verbatim>\<open>{...v}\<close> copies.\<close>

fun own_entries :: "jsval \<Rightarrow> (string \<times> jsval) list" where
  "own_entries (JObj entries) = entries"
| "own_entries (JArr items) = zip (map string_of_nat [0..<length items]) items"
| "own_entries (JStr s) = zip (map string_of_nat [0..<length s]) (map (\<lambda>c. JStr [c]) s)"
| "own_entries _ = []"

text \<open>Copying entries into an object: a later value replaces an earlier one of the same key.\<close>

definition assign_entries :: "(string \<times> jsval) list \<Rightarrow> (string \<times> jsval) list \<Rightarrow> (string \<times> jsval) list" where
  "assign_entries src dst = fold (\<lambda>(k, v) acc. AList.update k v acc) src dst"

record config =
  url :: string
  "method" :: "string option"
  headers :: "jsval option"
  body :: "jsval option"
  params :: "jsval option"

record http_request =
  req_method :: string
  req_url :: string
  req_headers :: "(string \<times> jsval) list"
  req_data :: "jsval option"
  req_params :: "jsval option"
  req_timeout :: int

text \<open>
  What \<^verbatim>\<open>await axios(...)\<close> comes back with under \<^verbatim>\<open>validateStatus: () => true\<close>: a
  response of any status code, or a thrown error with its \<open>code\<close> and \<open>message\<close>.
\<close>

record axios_error =
  code :: "string option"
  message :: string

datatype axios_outcome =
    AxResponse int jsval
  | AxError axios_error

text \<open>
  The world outside the module: Node's URL parser, Handlebars, \<^verbatim>\<open>JSON.parse\<close> (\<open>None\<close>
  when it throws), the destination (what the \<open>n\<close>-th call of axios answers to a request),
  the \<open>n\<close>-th draw of \<^verbatim>\<open>Math.random()\<close>, and what the engine's \<^verbatim>\<open>Math.pow\<close> returns
  for a base and a positive whole exponent (the language leaves its accuracy to the
  implementation).
\<close>

record env =
  parseURL :: url_parser
  Handlebars_render :: handlebars
  JSON_parse :: "string \<Rightarrow> jsval option"
  axios :: "nat \<Rightarrow> http_request \<Rightarrow> axios_outcome"
  Math_random :: "nat \<Rightarrow> real"
  Math_pow :: "real \<Rightarrow> nat \<Rightarrow> real"

text \<open>The effects of a dispatch: the requests issued and the delays slept, oldest first.\<close>

record world =
  sent :: "http_request list"
  slept :: "int list"

datatype status = Success | Error | Timeout

datatype err_msg =
    UrlValidationFailed "url_error option"
  | TimedOutAfter int
  | Message string

text \<open>
  The result of one attempt.  The fields that only carry wall-clock time, the truncated
  response text and the response headers are left out.
\<close>

record single_result =
  success :: bool
  status :: status
  httpStatusCode :: "int option"
  data :: "jsval option"
  errorMessage :: "err_msg option"
  errorCode :: "string option"
  err :: "axios_error option"

text \<open>
  Lines 221 to 269 of \<^verbatim>\<open>executeSingleRequest\<close> build the request.  First its parts:
  the method (line 222), the rendered \<^verbatim>\<open>params\<close> (line 246) and the resolved body
  \<^verbatim>\<open>processedBody\<close> (lines 248 to 260; \<open>None\<close> when \<^verbatim>\<open>config.body\<close> is falsy).
\<close>

definition requestMethod :: "config \<Rightarrow> string" where
  "requestMethod cfg =
     toUpperCase (case method cfg of Some m \<Rightarrow> if m = [] then ''POST'' else m
                  | None \<Rightarrow> ''POST'')"

definition renderedParams :: "env \<Rightarrow> config \<Rightarrow> jsval \<Rightarrow> jsval option" where
  "renderedParams e cfg context =
     (case params cfg of
        Some p \<Rightarrow> if truthy p then Some (processObjectTemplates (Handlebars_render e) p context)
                  else None
      | None \<Rightarrow> None)"

definition processedBody :: "env \<Rightarrow> config \<Rightarrow> jsval \<Rightarrow> jsval option" where
  "processedBody e cfg context =
     (case body cfg of
        None \<Rightarrow> None
      | Some b \<Rightarrow>
          if \<not> truthy b then None
          else (case b of
                  JStr s \<Rightarrow>
                    (let processed = processTemplate (Handlebars_render e) s context
                     in case JSON_parse e processed of
                          Some v \<Rightarrow> Some v
                        | None \<Rightarrow> Some (JStr processed))
                | _ \<Rightarrow> Some (processObjectTemplates (Handlebars_render e) b context)))"

definition buildRequest :: "env \<Rightarrow> config \<Rightarrow> jsval \<Rightarrow> int \<Rightarrow> http_request" where
  "buildRequest e cfg context timeout =
    (let hb = Handlebars_render e;
         url = processTemplate hb (url cfg) context;
         method = requestMethod cfg;
         headers = assign_entries
            (case headers cfg of
               Some h \<Rightarrow> if truthy h then own_entries (processObjectTemplates hb h context) else []
             | None \<Rightarrow> [])
            [(''Content-Type'', JStr ''application/json''), (''User-Agent'', JStr ''CodeFlow/1.0'')];
         params = renderedParams e cfg context
     in case processedBody e cfg context of
          None \<Rightarrow> \<lparr>req_method = method, req_url = url, req_headers = headers,
                    req_data = None, req_params = params, req_timeout = timeout\<rparr>
        | Some pb \<Rightarrow>
            if method = ''GET'' \<and> typeof_object pb
            then \<lparr>req_method = method, req_url = url, req_headers = headers, req_data = None,
                  req_params = Some (JObj (assign_entries (own_entries pb)
                     (assign_entries (case params of Some p \<Rightarrow> own_entries p | None \<Rightarrow> []) []))),
                  req_timeout = timeout\<rparr>
            else \<lparr>req_method = method, req_url = url, req_headers = headers, req_data = Some pb,
                  req_params = params, req_timeout = timeout\<rparr>)"

text \<open>Lines 283 to 331: what the executor makes of the answer of axios.\<close>

definition classifyOutcome :: "env \<Rightarrow> int \<Rightarrow> axios_outcome \<Rightarrow> single_result" where
  "classifyOutcome e timeout outcome =
    (case outcome of
       AxResponse st d \<Rightarrow>
         (let responseData = (case d of
                 JStr s \<Rightarrow> (case JSON_parse e s of Some v \<Rightarrow> v | None \<Rightarrow> JStr s)
               | _ \<Rightarrow> d);
              isSuccess = (200 \<le> st \<and> st < 300)
          in \<lparr>success = isSuccess, status = (if isSuccess then Success else Error),
              httpStatusCode = Some st, data = Some responseData, errorMessage = None,
              errorCode = None, err = None\<rparr>)
     | AxError er \<Rightarrow>
         if code er = Some ''ECONNABORTED'' \<or> includes_str (message er) ''timeout''
         then \<lparr>success = False, status = Timeout, httpStatusCode = None, data = None,
               errorMessage = Some (TimedOutAfter timeout), errorCode = None, err = Some er\<rparr>
         else \<lparr>success = False, status = Error, httpStatusCode = None, data = None,
               errorMessage = Some (Message (message er)), errorCode = code er, err = Some er\<rparr>)"

definition executeSingleRequest ::
  "env \<Rightarrow> config \<Rightarrow> jsval \<Rightarrow> int \<Rightarrow> bool \<Rightarrow> world \<Rightarrow> single_result \<times> world" where
  "executeSingleRequest e cfg context timeout skipValidation w =
    (let url = processTemplate (Handlebars_render e) (url cfg) context;
         urlValidation = validateWebhookUrl (parseURL e) url
     in if \<not> skipValidation \<and> \<not> valid urlValidation
        then (\<lparr>success = False, status = Error, httpStatusCode = None, data = None,
               errorMessage = Some (UrlValidationFailed (error urlValidation)),
               errorCode = None, err = None\<rparr>, w)
        else let request = buildRequest e cfg context timeout
             in (classifyOutcome e timeout (axios e (length (sent w)) request),
                 w\<lparr>sent := sent w @ [request]\<rparr>))"

section \<open>Retry orchestrator\<close>

record retry_config =
  maxRetries :: int
  initialDelayMs :: real
  maxDelayMs :: real
  backoffMultiplier :: real
  retryableStatusCodes :: "int list"
  retryableErrors :: "string list"

definition DEFAULT_RETRY_CONFIG :: retry_config where
  "DEFAULT_RETRY_CONFIG =
     \<lparr>maxRetries = 3, initialDelayMs = 1000, maxDelayMs = 10000, backoffMultiplier = 2,
      retryableStatusCodes = [408, 429, 500, 502, 503, 504],
      retryableErrors = [''ECONNRESET'', ''ETIMEDOUT'', ''ECONNABORTED'', ''ENOTFOUND'',
                         ''EAI_AGAIN'']\<rparr>"

text \<open>The caller's \<^verbatim>\<open>retryConfig\<close>: any subset of the keys; \<open>None\<close> is a key not given.\<close>

record retry_overrides =
  o_maxRetries :: "int option"
  o_initialDelayMs :: "real option"
  o_maxDelayMs :: "real option"
  o_backoffMultiplier :: "real option"
  o_retryableStatusCodes :: "int list option"
  o_retryableErrors :: "string list option"

text \<open>\<^verbatim>\<open>{ ...DEFAULT_RETRY_CONFIG, ...retryConfig }\<close>\<close>

definition merge_retry :: "retry_config \<Rightarrow> retry_overrides \<Rightarrow> retry_config" where
  "merge_retry d r =
     \<lparr>maxRetries = (case o_maxRetries r of Some v \<Rightarrow> v | None \<Rightarrow> maxRetries d),
      initialDelayMs = (case o_initialDelayMs r of Some v \<Rightarrow> v | None \<Rightarrow> initialDelayMs d),
      maxDelayMs = (case o_maxDelayMs r of Some v \<Rightarrow> v | None \<Rightarrow> maxDelayMs d),
      backoffMultiplier =
        (case o_backoffMultiplier r of Some v \<Rightarrow> v | None \<Rightarrow> backoffMultiplier d),
      retryableStatusCodes =
        (case o_retryableStatusCodes r of Some v \<Rightarrow> v | None \<Rightarrow> retryableStatusCodes d),
      retryableErrors =
        (case o_retryableErrors r of Some v \<Rightarrow> v | None \<Rightarrow> retryableErrors d)\<rparr>"

text \<open>
  JavaScript numbers are IEEE 754 doubles: every arithmetic operation returns the double
  nearest to the exact result, a tie going to the one with an even significand.
  \<open>double x\<close> is that rounding, for a significand of 53 bits; the exponent range is not
  bounded, so overflow to infinity and gradual underflow are not modelled.
\<close>

definition round_ties_even :: "real \<Rightarrow> int" where
  "round_ties_even m =
     (let f = \<lfloor>m\<rfloor>
      in if m - of_int f < 1 / 2 then f
         else if 1 / 2 < m - of_int f then f + 1
         else if even f then f else f + 1)"

definition double :: "real \<Rightarrow> real" where
  "double x =
     (if x = 0 then 0
      else let q = 2 powr of_int (\<lfloor>log 2 \<bar>x\<bar>\<rfloor> - 52)
           in of_int (round_ties_even (x / q)) * q)"

text \<open>
  \<^verbatim>\<open>Math.round(x)\<close> is the integer nearest to \<open>x\<close>, a half rounded up; on a double it
  is exact.
\<close>

definition Math_round :: "real \<Rightarrow> int" where
  "Math_round x = \<lfloor>x + 1 / 2\<rfloor>"

text \<open>\<^verbatim>\<open>Math.pow(b, n)\<close> for a whole \<open>n \<ge> 0\<close>: 1 when \<open>n = 0\<close>, as the language fixes it.\<close>

definition js_pow :: "(real \<Rightarrow> nat \<Rightarrow> real) \<Rightarrow> real \<Rightarrow> nat \<Rightarrow> real" where
  "js_pow pw b n = (if n = 0 then 1 else pw b n)"

text \<open>
  \<^verbatim>\<open>calculateBackoffDelay(attempt, config)\<close>, with the engine's \<^verbatim>\<open>Math.pow\<close> and the draw of
  \<^verbatim>\<open>Math.random()\<close> as its first arguments.  Each \<^verbatim>\<open>*\<close>, \<^verbatim>\<open>+\<close> and \<^verbatim>\<open>-\<close> of the source is
  the exact operation followed by \<open>double\<close>; \<^verbatim>\<open>Math.min\<close> is exact.
\<close>

definition calculateBackoffDelay ::
  "(real \<Rightarrow> nat \<Rightarrow> real) \<Rightarrow> real \<Rightarrow> nat \<Rightarrow> retry_config \<Rightarrow> int" where
  "calculateBackoffDelay pw random attempt cfg =
    (let exponentialDelay = double (initialDelayMs cfg * js_pow pw (backoffMultiplier cfg) attempt);
         cappedDelay = min exponentialDelay (maxDelayMs cfg);
         jitter = double (double (cappedDelay * 0.25) * double (double (random * 2) - 1))
     in Math_round (double (cappedDelay + jitter)))"

definition isRetryable :: "single_result \<Rightarrow> axios_error option \<Rightarrow> retry_config \<Rightarrow> bool" where
  "isRetryable result er cfg =
    (if (case er of Some x \<Rightarrow> (case code x of Some c \<Rightarrow> c \<in> set (retryableErrors cfg)
                                 | None \<Rightarrow> False)
         | None \<Rightarrow> False) then True
     else if (case httpStatusCode result of
                Some st \<Rightarrow> st \<noteq> 0 \<and> st \<in> set (retryableStatusCodes cfg)
              | None \<Rightarrow> False) then True
     else if status result = Timeout then True
     else False)"

record attempt_record =
  attempt :: int
  a_status :: status
  a_httpStatusCode :: "int option"
  a_errorMessage :: "err_msg option"

text \<open>
  What \<^verbatim>\<open>executeWebhook\<close> returns: the fields of the last attempt's result (\<open>None\<close> when
  \<^verbatim>\<open>lastResult\<close> is still \<open>null\<close>) and the retry information.  A field that the
  returned object does not have is \<open>None\<close>.
\<close>

record dispatch_result =
  outcome :: "single_result option"
  attempts :: "attempt_record list option"
  retriesUsed :: "int option"
  maxRetriesReached :: "bool option"

definition sleep :: "int \<Rightarrow> world \<Rightarrow> world" where
  "sleep ms w = w\<lparr>slept := slept w @ [ms]\<rparr>"

text \<open>
  The \<^verbatim>\<open>for\<close> loop of \<^verbatim>\<open>executeWebhook\<close> (lines 376 to 416) followed by the final
  \<^verbatim>\<open>return\<close> (lines 419 to 425).  The loop variable \<^verbatim>\<open>attempt\<close>, the list
  \<^verbatim>\<open>attempts\<close> and \<^verbatim>\<open>lastResult\<close> are the loop's state.
\<close>

function retry_loop ::
  "env \<Rightarrow> config \<Rightarrow> jsval \<Rightarrow> int \<Rightarrow> retry_config \<Rightarrow> int \<Rightarrow> attempt_record list
     \<Rightarrow> single_result option \<Rightarrow> world \<Rightarrow> dispatch_result \<times> world" where
  "retry_loop e cfg context timeout retry i atts lastResult w =
    (if i \<le> maxRetries retry then
       (let w1 = (if i > 0
                  then sleep (calculateBackoffDelay (Math_pow e)
                                (Math_random e (length (slept w))) (nat (i - 1)) retry) w
                  else w);
            rw = executeSingleRequest e cfg context timeout True w1;
            result = fst rw;
            atts' = atts @ [\<lparr>attempt = i + 1, a_status = status result,
                              a_httpStatusCode = httpStatusCode result,
                              a_errorMessage = errorMessage result\<rparr>]
        in if success result
           then (\<lparr>outcome = Some result, attempts = Some atts', retriesUsed = Some i,
                  maxRetriesReached = None\<rparr>, snd rw)
           else if i < maxRetries retry \<and> isRetryable result (err result) retry
           then retry_loop e cfg context timeout retry (i + 1) atts' (Some result) (snd rw)
           else (\<lparr>outcome = Some result, attempts = Some atts',
                  retriesUsed = Some (int (length atts') - 1),
                  maxRetriesReached = Some (int (length atts') > maxRetries retry)\<rparr>, snd rw))
     else (\<lparr>outcome = lastResult, attempts = Some atts,
            retriesUsed = Some (int (length atts) - 1),
            maxRetriesReached = Some (int (length atts) > maxRetries retry)\<rparr>, w))"
  by pat_completeness auto
termination
  by (relation "measure (\<lambda>(e, cfg, context, timeout, retry, i, atts, lastResult, w).
                   nat (maxRetries retry + 1 - i))") auto

declare retry_loop.simps [simp del]

definition executeWebhook ::
  "env \<Rightarrow> config \<Rightarrow> jsval \<Rightarrow> int \<Rightarrow> retry_overrides \<Rightarrow> world \<Rightarrow> dispatch_result \<times> world" where
  "executeWebhook e cfg context timeout retryConfig w =
    (let processedUrl = processTemplate (Handlebars_render e) (url cfg) context;
         urlValidation = validateWebhookUrl (parseURL e) processedUrl
     in if \<not> valid urlValidation
        then (\<lparr>outcome = Some \<lparr>success = False, status = Error, httpStatusCode = None,
                   data = None,
                   errorMessage = Some (UrlValidationFailed (error urlValidation)),
                   errorCode = None, err = None\<rparr>,
               attempts = Some [], retriesUsed = Some 0, maxRetriesReached = None\<rparr>, w)
        else let retry = merge_retry DEFAULT_RETRY_CONFIG retryConfig
             in if maxRetries retry = 0
                then (let rw = executeSingleRequest e cfg context timeout True w
                      in (\<lparr>outcome = Some (fst rw), attempts = None, retriesUsed = None,
                            maxRetriesReached = None\<rparr>, snd rw))
                else retry_loop e cfg context timeout retry 0 [] None w)"

section \<open>Response extractor\<close>

text \<open>\<^verbatim>\<open>s.split('.')\<close>: the pieces between the dots, empty pieces included.\<close>

fun split_dot :: "string \<Rightarrow> string list" where
  "split_dot [] = [[]]"
| "split_dot (c # cs) =
     (if c = CHR ''.'' then [] # split_dot cs
      else (case split_dot cs of p # ps \<Rightarrow> (c # p) # ps | [] \<Rightarrow> [[c]]))"

definition digit_val :: "char \<Rightarrow> nat" where
  "digit_val c = of_char c - 48"

text \<open>\<^verbatim>\<open>parseInt(ds, 10)\<close> on a string of decimal digits.\<close>

definition parseInt :: "string \<Rightarrow> nat" where
  "parseInt ds = fold (\<lambda>c n. 10 * n + digit_val c) ds 0"

text \<open>
  \<^verbatim>\<open>current[key]\<close> on a value that is neither \<open>null\<close> nor \<open>undefined\<close> reads an own
  property first: a property of an object, an element or the length of an array or of a
  string, the name of a function.  An index is a key only in its canonical decimal form.
\<close>

definition index_key :: "string \<Rightarrow> nat option" where
  "index_key k =
     (if k \<noteq> [] \<and> list_all is_digit k \<and> string_of_nat (parseInt k) = k
      then Some (parseInt k) else None)"

fun own_property :: "jsval \<Rightarrow> string \<Rightarrow> jsval option" where
  "own_property (JObj entries) k = map_of entries k"
| "own_property (JArr items) k =
     (if k = ''length'' then Some (JNum (real (length items)))
      else case index_key k of
             Some i \<Rightarrow> if i < length items then Some (items ! i) else None
           | None \<Rightarrow> None)"
| "own_property (JStr s) k =
     (if k = ''length'' then Some (JNum (real (length s)))
      else case index_key k of
             Some i \<Rightarrow> if i < length s then Some (JStr [s ! i]) else None
           | None \<Rightarrow> None)"
| "own_property (JFunction name) k = (if k = ''name'' then Some (JStr name) else None)"
| "own_property _ k = None"

text \<open>
  When the value has no such own property, the read goes on to its prototype chain
  (\<^verbatim>\<open>Object.prototype\<close>, \<^verbatim>\<open>Array.prototype\<close>, ...), which belongs to the runtime: \<open>proto v k\<close>
  is what the chain of \<open>v\<close> gives for \<open>k\<close>, \<open>None\<close> when no prototype has it either.
\<close>

type_synonym prototypes = "jsval \<Rightarrow> string \<Rightarrow> jsval option"

definition js_get :: "prototypes \<Rightarrow> jsval \<Rightarrow> string \<Rightarrow> jsval option" where
  "js_get proto v k = (case own_property v k of Some x \<Rightarrow> Some x | None \<Rightarrow> proto v k)"

text \<open>
  \<^verbatim>\<open>part.match(/^(\w+)\[(\d+)\]$/)\<close>: the name and the index of \<^verbatim>\<open>name[index]\<close>.  As
  \<^verbatim>\<open>[\<close> is no word character, the name is the longest prefix of word characters.
\<close>

definition arrayMatch :: "string \<Rightarrow> (string \<times> nat) option" where
  "arrayMatch part =
    (let name = takeWhile is_word_char part;
         rest = dropWhile is_word_char part
     in if name \<noteq> [] \<and> 3 \<le> length rest \<and> hd rest = CHR ''['' \<and> last rest = CHR '']''
           \<and> list_all is_digit (butlast (tl rest))
        then Some (name, parseInt (butlast (tl rest)))
        else None)"

text \<open>The loop of \<^verbatim>\<open>getValueByPath\<close> over the parts, \<^verbatim>\<open>current\<close> being its state.\<close>

fun walk_parts :: "prototypes \<Rightarrow> string list \<Rightarrow> jsval option \<Rightarrow> jsval option" where
  "walk_parts proto [] current = current"
| "walk_parts proto (part # parts) current =
    (case current of
       None \<Rightarrow> None
     | Some JNull \<Rightarrow> None
     | Some cur \<Rightarrow>
        (case arrayMatch part of
           Some (name, idx) \<Rightarrow>
             (case js_get proto cur name of
                Some (JArr items) \<Rightarrow>
                  walk_parts proto parts
                    (if idx < length items then Some (items ! idx) else None)
              | _ \<Rightarrow> None)
         | None \<Rightarrow> walk_parts proto parts (js_get proto cur part)))"

definition getValueByPath :: "prototypes \<Rightarrow> jsval option \<Rightarrow> string \<Rightarrow> jsval option" where
  "getValueByPath proto obj path = walk_parts proto (split_dot path) obj"

record mapping =
  outputFieldName :: string
  jsonPath :: string

definition extractOutputFields ::
  "prototypes \<Rightarrow> single_result \<Rightarrow> mapping list option \<Rightarrow> (string \<times> jsval) list" where
  "extractOutputFields proto response outputMappings =
    (case outputMappings of
       None \<Rightarrow> []
     | Some ms \<Rightarrow>
        if (case data response of Some d \<Rightarrow> \<not> truthy d | None \<Rightarrow> True) then []
        else fold (\<lambda>m outputs.
               if jsonPath m = [] then outputs
               else (case getValueByPath proto (data response) (jsonPath m) of
                       None \<Rightarrow> outputs
                     | Some v \<Rightarrow> AList.update (outputFieldName m) v outputs))
             ms [])"

section \<open>A template engine after the specification\<close>

text \<open>
  Modelled from the spec: the Handlebars library, which \<^verbatim>\<open>processTemplate\<close> calls and
  whose code is not among the sources.  The specification says of it: placeholders of the
  form \<^verbatim>\<open>{{path}}\<close> resolve dotted paths into the context, an unresolved placeholder
  renders as the empty string, values are inserted verbatim, and a malformed template is a
  render failure.  How a value that is no string is printed is left to a parameter.
\<close>

datatype token = Text string | Placeholder "string list"

definition trim :: "string \<Rightarrow> string" where
  "trim s = rev (dropWhile (\<lambda>c. c = CHR '' '') (rev (dropWhile (\<lambda>c. c = CHR '' '') s)))"

definition parse_path :: "string \<Rightarrow> string list option" where
  "parse_path s =
     (let parts = split_dot (trim s)
      in if list_all (\<lambda>p. p \<noteq> [] \<and> list_all is_word_char p) parts then Some parts else None)"

fun hb_lex :: "bool \<Rightarrow> string \<Rightarrow> string \<Rightarrow> token list option" where
  "hb_lex False acc [] = Some [Text acc]"
| "hb_lex True acc [] = None"
| "hb_lex False acc [c] = Some [Text (acc @ [c])]"
| "hb_lex True acc [c] = None"
| "hb_lex False acc (c1 # c2 # cs) =
     (if c1 = CHR ''{'' \<and> c2 = CHR ''{''
      then map_option (\<lambda>ts. Text acc # ts) (hb_lex True [] cs)
      else hb_lex False (acc @ [c1]) (c2 # cs))"
| "hb_lex True acc (c1 # c2 # cs) =
     (if c1 = CHR ''}'' \<and> c2 = CHR ''}''
      then (case parse_path acc of
              None \<Rightarrow> None
            | Some p \<Rightarrow> map_option (\<lambda>ts. Placeholder p # ts) (hb_lex False [] cs))
      else hb_lex True (acc @ [c1]) (c2 # cs))"

fun resolve :: "string list \<Rightarrow> jsval \<Rightarrow> jsval option" where
  "resolve [] v = Some v"
| "resolve (p # ps) v =
     (case own_property v p of Some v' \<Rightarrow> resolve ps v' | None \<Rightarrow> None)"

definition render_token :: "(jsval \<Rightarrow> string) \<Rightarrow> jsval \<Rightarrow> token \<Rightarrow> string" where
  "render_token print context t =
     (case t of
        Text s \<Rightarrow> s
      | Placeholder p \<Rightarrow>
          (case resolve p context of
             None \<Rightarrow> []
           | Some (JStr s) \<Rightarrow> s
           | Some v \<Rightarrow> print v))"

definition hb_render :: "(jsval \<Rightarrow> string) \<Rightarrow> handlebars" where
  "hb_render print template context =
     map_option (\<lambda>ts. concat (map (render_token print context) ts)) (hb_lex False [] template)"

section \<open>A destination and a configuration to run the model on\<close>

text \<open>
  A URL parser that knows one public URL (with the fields Node's parser gives it), a
  destination that answers every request with the same status code, and configurations
  for it.
\<close>

definition example_parse :: url_parser where
  "example_parse s =
     (if s = ''https://api.example.com/hook''
      then Some \<lparr>protocol = ''https:'', hostname = ''api.example.com'', username = [],
                 password = []\<rparr>
      else None)"

definition example_env :: "int \<Rightarrow> env" where
  "example_env st =
     \<lparr>parseURL = example_parse, Handlebars_render = hb_render (\<lambda>v. []),
      JSON_parse = (\<lambda>s. None), axios = (\<lambda>n request. AxResponse st JNull),
      Math_random = (\<lambda>n. 1 / 2), Math_pow = (\<lambda>b n. b ^ n)\<rparr>"

definition timeout_env :: env where
  "timeout_env =
     (example_env 0)\<lparr>axios := (\<lambda>n request.
        AxError \<lparr>code = Some ''ECONNABORTED'', message = ''timeout of 30000ms exceeded''\<rparr>)\<rparr>"

definition example_config :: config where
  "example_config =
     \<lparr>url = ''https://api.example.com/hook'', method = Some ''POST'', headers = None,
      body = None, params = None\<rparr>"

definition example_get_config :: config where
  "example_get_config =
     \<lparr>url = ''https://api.example.com/hook'', method = Some ''get'', headers = None,
      body = Some (JObj [(''page'', JStr ''2''), (''q'', JStr ''x'')]),
      params = Some (JObj [(''page'', JStr ''1''), (''limit'', JStr ''10'')])\<rparr>"

definition no_overrides :: retry_overrides where
  "no_overrides =
     \<lparr>o_maxRetries = None, o_initialDelayMs = None, o_maxDelayMs = None,
      o_backoffMultiplier = None, o_retryableStatusCodes = None, o_retryableErrors = None\<rparr>"

definition fresh_world :: world where
  "fresh_world = \<lparr>sent = [], slept = []\<rparr>"

text \<open>
  Of the prototypes of the runtime, the one inherited property \<^verbatim>\<open>constructor\<close>: the
  built-in function that makes values of the kind.
\<close>

definition example_proto :: prototypes where
  "example_proto v k =
     (if k = ''constructor''
      then (case v of
              JNull \<Rightarrow> None
            | JBool _ \<Rightarrow> Some (JFunction ''Boolean'')
            | JNum _ \<Rightarrow> Some (JFunction ''Number'')
            | JStr _ \<Rightarrow> Some (JFunction ''String'')
            | JArr _ \<Rightarrow> Some (JFunction ''Array'')
            | JObj _ \<Rightarrow> Some (JFunction ''Object'')
            | JFunction _ \<Rightarrow> Some (JFunction ''Function''))
      else None)"

section \<open>The URL guard on address literals\<close>

lemmas guard_eval =
  validateWebhookUrl_def invalid_def BLOCKED_HOSTNAMES_def BLOCKED_IP_PATTERNS_def
  ipv4_pattern_def regex_test_def rx_start_def rx_start_i_def rx_whole_def startsWith_def
  toLowerCase_def toLowerCase_char_def is_digit_def

text \<open>
  C1.  The claim: every URL whose host is a dotted quad of a private, loopback, link-local,
  carrier-grade NAT (100.64.0.0/10), documentation, multicast or reserved range is invalid.
  The code does not do that.  Its pattern for 100.64.0.0/10 reads the second octet as
  \<^verbatim>\<open>6[4-9]|[7-9][0-9]|1[0-2][0-7]\<close>, which leaves out 108, 109, 118 and 119; its
  patterns for 224.0.0.0/4 and 240.0.0.0/4 match the first octets 224 and 240 only.  So
  the guard answers \<open>valid\<close> for the http(s) URLs of the hosts below, each inside a
  range that the comment beside its pattern names.
\<close>

theorem validateWebhookUrl_passes_blocked_ipv4:
  assumes "u \<noteq> []"
    and "parse u = Some \<lparr>protocol = ''http:'', hostname = h, username = [], password = []\<rparr>"
    and "h = ''100.108.0.1'' \<or> h = ''100.119.255.254'' \<or> h = ''239.255.255.250''
         \<or> h = ''241.0.0.1''"
  shows "validateWebhookUrl parse u = \<lparr>valid = True, error = None\<rparr>"
  using assms(3)
proof (elim disjE)
  assume "h = ''100.108.0.1''"
  with assms(1,2) show ?thesis by (simp add: guard_eval)
next
  assume "h = ''100.119.255.254''"
  with assms(1,2) show ?thesis by (simp add: guard_eval)
next
  assume "h = ''239.255.255.250''"
  with assms(1,2) show ?thesis by (simp add: guard_eval)
next
  assume "h = ''241.0.0.1''"
  with assms(1,2) show ?thesis by (simp add: guard_eval)
qed

theorem validateWebhookUrl_passes_blocked_ipv4_witness:
  "validateWebhookUrl
     (\<lambda>s. Some \<lparr>protocol = ''http:'', hostname = ''100.108.0.1'', username = [], password = []\<rparr>)
     ''http://100.108.0.1/'' = \<lparr>valid = True, error = None\<rparr>"
  by (rule validateWebhookUrl_passes_blocked_ipv4 [where h = "''100.108.0.1''"]) simp_all

text \<open>
  C3.  The claim: every http(s) URL whose host is an IPv6 loopback, unique-local (fc00::/7)
  or link-local (fe80::/10) literal is invalid.  The code does not do that.  The hostname
  of such a URL is the address in square brackets, which the guard expects (it tests
  \<^verbatim>\<open>hostname.startsWith('[')\<close> and lists \<^verbatim>\<open>'[::1]'\<close> among the blocked names), but its
  patterns \<^verbatim>\<open>/^fc00:/i\<close> and \<^verbatim>\<open>/^fe80:/i\<close> are anchored at the first character, so
  no bracketed host matches them; and they spell one 16-bit prefix each, not the ranges
  fc00::/7 (fd00::1) and fe80::/10 (febf::1).
\<close>

theorem validateWebhookUrl_passes_blocked_ipv6:
  assumes "u \<noteq> []"
    and "parse u = Some \<lparr>protocol = ''http:'', hostname = h, username = [], password = []\<rparr>"
    and "h = ''[fc00::1]'' \<or> h = ''[fd00::1]'' \<or> h = ''[fe80::1]'' \<or> h = ''[febf::1]''"
  shows "validateWebhookUrl parse u = \<lparr>valid = True, error = None\<rparr>"
  using assms(3)
proof (elim disjE)
  assume "h = ''[fc00::1]''"
  with assms(1,2) show ?thesis by (simp add: guard_eval)
next
  assume "h = ''[fd00::1]''"
  with assms(1,2) show ?thesis by (simp add: guard_eval)
next
  assume "h = ''[fe80::1]''"
  with assms(1,2) show ?thesis by (simp add: guard_eval)
next
  assume "h = ''[febf::1]''"
  with assms(1,2) show ?thesis by (simp add: guard_eval)
qed

theorem validateWebhookUrl_passes_blocked_ipv6_witness:
  "validateWebhookUrl
     (\<lambda>s. Some \<lparr>protocol = ''http:'', hostname = ''[fd00::1]'', username = [], password = []\<rparr>)
     ''http://[fd00::1]/'' = \<lparr>valid = True, error = None\<rparr>"
  by (rule validateWebhookUrl_passes_blocked_ipv6 [where h = "''[fd00::1]''"]) simp_all

section \<open>Single-attempt executor\<close>

lemma executeSingleRequest_sent:
  "skip \<or> valid (validateWebhookUrl (parseURL e)
                    (processTemplate (Handlebars_render e) (url cfg) c)) \<Longrightarrow>
   executeSingleRequest e cfg c timeout skip w =
     (classifyOutcome e timeout (axios e (length (sent w)) (buildRequest e cfg c timeout)),
      w\<lparr>sent := sent w @ [buildRequest e cfg c timeout]\<rparr>)"
  by (auto simp add: executeSingleRequest_def Let_def)

lemma executeSingleRequest_skip:
  "executeSingleRequest e cfg c timeout True w =
     (classifyOutcome e timeout (axios e (length (sent w)) (buildRequest e cfg c timeout)),
      w\<lparr>sent := sent w @ [buildRequest e cfg c timeout]\<rparr>)"
  by (simp add: executeSingleRequest_sent)

lemma classifyOutcome_response:
  "success (classifyOutcome e t (AxResponse st d)) = (200 \<le> st \<and> st < 300)"
  "status (classifyOutcome e t (AxResponse st d))
     = (if 200 \<le> st \<and> st < 300 then Success else Error)"
  "httpStatusCode (classifyOutcome e t (AxResponse st d)) = Some st"
  "err (classifyOutcome e t (AxResponse st d)) = None"
  by (simp_all add: classifyOutcome_def Let_def)

lemma classifyOutcome_timeout:
  "code er = Some ''ECONNABORTED'' \<or> includes_str (message er) ''timeout'' \<Longrightarrow>
   status (classifyOutcome e t (AxError er)) = Timeout
   \<and> \<not> success (classifyOutcome e t (AxError er))"
  by (auto simp add: classifyOutcome_def)

lemma example_url_rendered:
  "processTemplate (hb_render p) ''https://api.example.com/hook'' c
     = ''https://api.example.com/hook''"
  by (simp add: processTemplate_def hb_render_def render_token_def)

lemma example_url_valid:
  "validateWebhookUrl example_parse ''https://api.example.com/hook''
     = \<lparr>valid = True, error = None\<rparr>"
  by (simp add: example_parse_def guard_eval)

lemma example_valid:
  "valid (validateWebhookUrl (parseURL (example_env st))
     (processTemplate (Handlebars_render (example_env st)) (url example_config) c))"
  by (simp add: example_env_def example_config_def example_url_rendered example_url_valid)

text \<open>
  C5.  Whatever status code axios answers with, the attempt returns a result: it is a
  success with status \<open>success\<close> exactly when the code lies in [200, 300), and has status
  \<open>error\<close> for every other code.  An error thrown by axios whose code is
  \<^verbatim>\<open>ECONNABORTED\<close> (axios' code for a timeout and for an abort) or whose message mentions
  \<^verbatim>\<open>timeout\<close> gives status \<open>timeout\<close>.  The request is issued when validation is skipped
  or passes.
\<close>

theorem executeSingleRequest_classifies:
  assumes "skip \<or> valid (validateWebhookUrl (parseURL e)
             (processTemplate (Handlebars_render e) (url cfg) c))"
    and "r = fst (executeSingleRequest e cfg c timeout skip w)"
    and "answer = axios e (length (sent w)) (buildRequest e cfg c timeout)"
  shows "(\<forall>st d. answer = AxResponse st d \<longrightarrow>
            ((success r \<and> status r = Success) = (200 \<le> st \<and> st < 300))
            \<and> (\<not> (200 \<le> st \<and> st < 300) \<longrightarrow> \<not> success r \<and> status r = Error)
            \<and> httpStatusCode r = Some st)
       \<and> (\<forall>er. answer = AxError er
                 \<and> (code er = Some ''ECONNABORTED'' \<or> includes_str (message er) ''timeout'')
              \<longrightarrow> \<not> success r \<and> status r = Timeout)"
  using assms(2,3) executeSingleRequest_sent [OF assms(1), of timeout w] classifyOutcome_timeout
  by (auto simp add: classifyOutcome_response)

theorem executeSingleRequest_classifies_witness:
  "\<not> success (fst (executeSingleRequest (example_env 404) example_config JNull 30000 True
                     fresh_world))
   \<and> status (fst (executeSingleRequest (example_env 404) example_config JNull 30000 True
                     fresh_world)) = Error
   \<and> success (fst (executeSingleRequest (example_env 204) example_config JNull 30000 False
                     fresh_world))
   \<and> status (fst (executeSingleRequest (example_env 204) example_config JNull 30000 False
                     fresh_world)) = Success
   \<and> status (fst (executeSingleRequest timeout_env example_config JNull 30000 True
                     fresh_world)) = Timeout"
proof -
  have a: "axios (example_env st) n q = AxResponse st JNull" for st n q
    by (simp add: example_env_def)
  have b: "axios timeout_env n q
         = AxError \<lparr>code = Some ''ECONNABORTED'', message = ''timeout of 30000ms exceeded''\<rparr>"
    for n q
    by (simp add: timeout_env_def example_env_def)
  from executeSingleRequest_classifies [of True "example_env 404" example_config JNull
      _ 30000 fresh_world, OF _ refl refl]
  have "\<not> success (fst (executeSingleRequest (example_env 404) example_config JNull 30000 True
                     fresh_world))
      \<and> status (fst (executeSingleRequest (example_env 404) example_config JNull 30000 True
                     fresh_world)) = Error"
    by (simp add: a)
  moreover
  from executeSingleRequest_classifies [of False "example_env 204" example_config JNull
      _ 30000 fresh_world, OF _ refl refl] example_valid [of 204 JNull]
  have "success (fst (executeSingleRequest (example_env 204) example_config JNull 30000 False
                     fresh_world))
      \<and> status (fst (executeSingleRequest (example_env 204) example_config JNull 30000 False
                     fresh_world)) = Success"
    by (simp add: a)
  moreover
  from executeSingleRequest_classifies [of True timeout_env example_config JNull
      _ 30000 fresh_world, OF _ refl refl]
  have "status (fst (executeSingleRequest timeout_env example_config JNull 30000 True
                     fresh_world)) = Timeout"
    by (simp add: b)
  ultimately show ?thesis by simp
qed

section \<open>Backoff delay\<close>


lemma round_ties_even_of_int: "round_ties_even (of_int n) = n"
  unfolding round_ties_even_def Let_def by simp



lemma double_representable:
  assumes "\<bar>n\<bar> < 2 ^ 53"
  shows "double (of_int n * 2 powr of_int k) = of_int n * 2 powr of_int k"
proof (cases "n = 0")
  case True
  then show ?thesis by (simp add: double_def)
next
  case False
  define x :: real where "x = of_int n * 2 powr of_int k"
  have x0: "x \<noteq> 0" using False by (simp add: x_def)
  have ax: "\<bar>x\<bar> = of_int \<bar>n\<bar> * 2 powr of_int k" by (simp add: x_def abs_mult)
  have "of_int \<bar>n\<bar> < (2::real) ^ 53"
    using assms by (metis of_int_less_numeral_power_cancel_iff)
  then have "\<bar>x\<bar> < 2 ^ 53 * 2 powr of_int k" unfolding ax by simp
  also have "\<dots> = 2 powr (53 + of_int k)" by (simp add: powr_add powr_realpow [symmetric])
  finally have "log 2 \<bar>x\<bar> < 53 + of_int k"
    using x0 by (simp add: log_less_iff)
  then have fl: "\<lfloor>log 2 \<bar>x\<bar>\<rfloor> < 53 + k" by linarith
  define e where "e = \<lfloor>log 2 \<bar>x\<bar>\<rfloor> - 52"
  have ek: "e \<le> k" using fl by (simp add: e_def)
  have "(2::real) powr of_int k = 2 powr of_int (k - e) * 2 powr of_int e"
    by (simp add: powr_add [symmetric])
  also have "(2::real) powr of_int (k - e) = 2 ^ nat (k - e)"
    using ek by (simp add: powr_realpow [symmetric])
  finally have split: "(2::real) powr of_int k = 2 ^ nat (k - e) * 2 powr of_int e" .
  have "x / 2 powr of_int e = of_int (n * 2 ^ nat (k - e))"
    by (simp add: x_def split)
  then have "double x = of_int (n * 2 ^ nat (k - e)) * 2 powr of_int e"
    using x0
    by (simp add: double_def e_def [symmetric] Let_def round_ties_even_of_int
        del: of_int_mult of_int_power)
  also have "\<dots> = x" by (simp add: x_def split)
  finally show ?thesis by (simp add: x_def)
qed


lemma double_int: "\<bar>n\<bar> < 2 ^ 53 \<Longrightarrow> double (of_int n) = of_int n"
  using double_representable [of n 0] by simp


text \<open>
  The model follows the doubles where they leave the real numbers.  With
  \<^verbatim>\<open>initialDelayMs = 2\<close> and the draw \<open>1 - 2\<^sup>-\<^sup>5\<^sup>2\<close>, the exact sum of the capped delay
  and the jitter is \<open>5/2 - 2\<^sup>-\<^sup>5\<^sup>2\<close>, which lies halfway between two doubles and is
  rounded to \<open>5/2\<close>; then \<^verbatim>\<open>Math.round\<close> gives 3, where exact arithmetic would give 2.
\<close>

lemma double_tie: "double (5 / 2 - 1 / 2 ^ 52) = 5 / 2"
proof -
  define x :: real where "x = 5 / 2 - 1 / 2 ^ 52"
  have pos: "0 < x" by (simp add: x_def)
  have "\<lfloor>log 2 x\<rfloor> = 1"
    using pos by (subst floor_log_eq_powr_iff) (simp_all add: x_def)
  then have e: "\<lfloor>log 2 \<bar>x\<bar>\<rfloor> - 52 = - 51" using pos by simp
  have q: "(2::real) powr of_int (- 51) = 1 / 2 ^ 51"
    by (simp add: powr_minus_divide powr_realpow [symmetric])
  have m: "x / (1 / 2 ^ 51) = 5 * 2 ^ 50 - 1 / 2" by (simp add: x_def)
  have r: "round_ties_even (5 * 2 ^ 50 - 1 / 2) = 5 * 2 ^ 50"
    by (simp add: round_ties_even_def Let_def)
  have "double x = of_int (round_ties_even (x / (1 / 2 ^ 51))) * (1 / 2 ^ 51)"
    using pos unfolding double_def Let_def e q by simp
  also have "\<dots> = 5 / 2" unfolding m r by simp
  finally show ?thesis by (simp add: x_def)
qed

lemma calculateBackoffDelay_tie:
  "calculateBackoffDelay pw (1 - 1 / 2 ^ 52) 0 (DEFAULT_RETRY_CONFIG\<lparr>initialDelayMs := 2\<rparr>) = 3"
proof -
  define r :: real where "r = 1 - 1 / 2 ^ 52"
  have a: "double 2 = 2" using double_int [of 2] by simp
  have b: "double (1 / 2) = 1 / 2"
    using double_representable [of 1 "- 1"] by (simp add: powr_minus_divide)
  have A: "calculateBackoffDelay pw r 0 (DEFAULT_RETRY_CONFIG\<lparr>initialDelayMs := 2\<rparr>)
         = Math_round (double (2 + double (double (1 / 2) * double (double (r * 2) - 1))))"
    by (simp add: calculateBackoffDelay_def js_pow_def DEFAULT_RETRY_CONFIG_def a)
  have c: "double (r * 2) = 2 - 1 / 2 ^ 51"
    using double_representable [of "2 ^ 52 - 1" "- 51"]
    by (simp add: r_def powr_minus_divide powr_realpow [symmetric] field_simps)
  have d: "double (2 - 1 / 2 ^ 51 - 1) = 1 - 1 / 2 ^ 51"
    using double_representable [of "2 ^ 51 - 1" "- 51"]
    by (simp add: powr_minus_divide powr_realpow [symmetric] field_simps)
  have e: "double (1 / 2 * (1 - 1 / 2 ^ 51)) = 1 / 2 - 1 / 2 ^ 52"
    using double_representable [of "2 ^ 51 - 1" "- 52"]
    by (simp add: powr_minus_divide powr_realpow [symmetric] field_simps)
  have f: "double (2 + (1 / 2 - 1 / 2 ^ 52)) = 5 / 2"
    using double_tie by simp
  have "calculateBackoffDelay pw r 0 (DEFAULT_RETRY_CONFIG\<lparr>initialDelayMs := 2\<rparr>)
          = Math_round (5 / 2)"
    unfolding A b c d e f ..
  then show ?thesis by (simp add: r_def Math_round_def)
qed




section \<open>Retry orchestrator: attempts and retries\<close>

lemma sent_sleep: "sent (sleep ms w) = sent w"
  by (simp add: sleep_def)

lemma sent_executeSingleRequest_skip:
  "length (sent (snd (executeSingleRequest e cfg c timeout True w))) = Suc (length (sent w))"
  by (simp add: executeSingleRequest_skip)

text \<open>
  What the loop keeps: entered at index \<open>i\<close> with \<open>i\<close> attempts recorded, it returns at
  least one more record, one per request issued, and \<open>retriesUsed\<close> is their number less one.
\<close>

lemma retry_loop_attempts:
  assumes "i \<le> maxRetries retry" and "int (length atts) = i"
  shows "\<exists>as. attempts (fst (retry_loop e cfg ctx timeout retry i atts lastResult w)) = Some as
            \<and> length atts < length as
            \<and> retriesUsed (fst (retry_loop e cfg ctx timeout retry i atts lastResult w))
                = Some (int (length as) - 1)
            \<and> length (sent (snd (retry_loop e cfg ctx timeout retry i atts lastResult w)))
                = length (sent w) + (length as - length atts)"
  using assms
proof (induction e cfg ctx timeout retry i atts lastResult w rule: retry_loop.induct)
  case (1 e cfg ctx timeout retry i atts lastResult w)
  let ?w1 = "if i > 0 then sleep (calculateBackoffDelay (Math_pow e)
                                (Math_random e (length (slept w))) (nat (i - 1)) retry) w else w"
  let ?rw = "executeSingleRequest e cfg ctx timeout True ?w1"
  let ?res = "fst ?rw"
  let ?atts = "atts @ [\<lparr>attempt = i + 1, a_status = status ?res,
                              a_httpStatusCode = httpStatusCode ?res,
                              a_errorMessage = errorMessage ?res\<rparr>]"
  have sent1: "length (sent (snd ?rw)) = Suc (length (sent w))"
    by (simp add: sent_executeSingleRequest_skip sent_sleep)
  show ?case
  proof (cases "\<not> success ?res \<and> i < maxRetries retry \<and> isRetryable ?res (err ?res) retry")
    case True
    then have eq: "retry_loop e cfg ctx timeout retry i atts lastResult w
                 = retry_loop e cfg ctx timeout retry (i + 1) ?atts (Some ?res) (snd ?rw)"
      using "1.prems"(1) by (subst retry_loop.simps) (simp add: Let_def)
    have "\<exists>as. attempts (fst (retry_loop e cfg ctx timeout retry (i + 1) ?atts (Some ?res)
                                (snd ?rw))) = Some as
            \<and> length ?atts < length as
            \<and> retriesUsed (fst (retry_loop e cfg ctx timeout retry (i + 1) ?atts (Some ?res)
                                   (snd ?rw)))
                = Some (int (length as) - 1)
            \<and> length (sent (snd (retry_loop e cfg ctx timeout retry (i + 1) ?atts (Some ?res)
                                    (snd ?rw))))
                = length (sent (snd ?rw)) + (length as - length ?atts)"
      using True "1.prems" by (intro "1.IH") (auto simp add: Let_def)
    then show ?thesis
      unfolding eq using sent1 by auto
  next
    case False
    then show ?thesis
      using "1.prems" sent1
      by (subst (1 2 3) retry_loop.simps) (auto simp add: Let_def)
  qed
qed

text \<open>
  C2, as the claim states it, fails at \<open>maxRetries = 0\<close>: the dispatcher then returns the
  result of \<^verbatim>\<open>executeSingleRequest\<close> as it is, which has neither \<open>attempts\<close> nor
  \<open>retriesUsed\<close>, although a request has been issued.
\<close>

theorem executeWebhook_no_retry_counterexample:
  "length (sent (snd (executeWebhook (example_env 200) example_config JNull 30000
                        (no_overrides\<lparr>o_maxRetries := Some 0\<rparr>) fresh_world))) = 1
   \<and> attempts (fst (executeWebhook (example_env 200) example_config JNull 30000
                        (no_overrides\<lparr>o_maxRetries := Some 0\<rparr>) fresh_world)) = None
   \<and> retriesUsed (fst (executeWebhook (example_env 200) example_config JNull 30000
                        (no_overrides\<lparr>o_maxRetries := Some 0\<rparr>) fresh_world)) = None"
  using example_valid [of 200 JNull]
  by (simp add: executeWebhook_def Let_def merge_retry_def no_overrides_def fresh_world_def
      executeSingleRequest_skip)

text \<open>
  C2, amended.  When the URL passes validation and the merged policy has
  \<open>maxRetries \<ge> 1\<close>, the result has a non-empty \<open>attempts\<close>, one record per request
  issued, and \<open>retriesUsed\<close> is its length less one.  When validation fails, \<open>attempts\<close> is
  empty, \<open>retriesUsed\<close> is 0 and nothing is issued.  When validation passes and
  \<open>maxRetries = 0\<close>, one request is issued, the result is that of this single attempt
  and carries neither field.
\<close>

theorem executeWebhook_attempts_invariant:
  assumes "R = executeWebhook e cfg c timeout retryConfig w"
    and "ok = valid (validateWebhookUrl (parseURL e)
                       (processTemplate (Handlebars_render e) (url cfg) c))"
    and "n = maxRetries (merge_retry DEFAULT_RETRY_CONFIG retryConfig)"
  shows "(ok \<and> 1 \<le> n \<longrightarrow>
            (\<exists>as. attempts (fst R) = Some as \<and> as \<noteq> []
                \<and> retriesUsed (fst R) = Some (int (length as) - 1)
                \<and> length (sent (snd R)) = length (sent w) + length as))
       \<and> (\<not> ok \<longrightarrow> attempts (fst R) = Some [] \<and> retriesUsed (fst R) = Some 0 \<and> snd R = w)
       \<and> (ok \<and> n = 0 \<longrightarrow>
            attempts (fst R) = None \<and> retriesUsed (fst R) = None
            \<and> length (sent (snd R)) = length (sent w) + 1
            \<and> outcome (fst R) = Some (fst (executeSingleRequest e cfg c timeout True w)))"
proof -
  have retried: "\<exists>as. attempts (fst R) = Some as \<and> as \<noteq> []
                \<and> retriesUsed (fst R) = Some (int (length as) - 1)
                \<and> length (sent (snd R)) = length (sent w) + length as"
    if "ok \<and> 1 \<le> n"
  proof -
    from that have R: "R = retry_loop e cfg c timeout
                         (merge_retry DEFAULT_RETRY_CONFIG retryConfig) 0 [] None w"
      using assms by (simp add: executeWebhook_def Let_def)
    from that assms(3)
    have "0 \<le> maxRetries (merge_retry DEFAULT_RETRY_CONFIG retryConfig)" by simp
    from retry_loop_attempts [OF this, of "[]" e cfg c timeout None w]
    show ?thesis unfolding R by auto
  qed
  have rejected: "attempts (fst R) = Some [] \<and> retriesUsed (fst R) = Some 0 \<and> snd R = w"
    if "\<not> ok"
    using that assms by (simp add: executeWebhook_def Let_def)
  have single: "attempts (fst R) = None \<and> retriesUsed (fst R) = None
            \<and> length (sent (snd R)) = length (sent w) + 1
            \<and> outcome (fst R) = Some (fst (executeSingleRequest e cfg c timeout True w))"
    if "ok \<and> n = 0"
    using that assms by (simp add: executeWebhook_def Let_def executeSingleRequest_skip)
  from retried rejected single show ?thesis by blast
qed

lemma default_maxRetries: "maxRetries (merge_retry DEFAULT_RETRY_CONFIG no_overrides) = 3"
  by (simp add: merge_retry_def DEFAULT_RETRY_CONFIG_def no_overrides_def)

lemma default_retries_503:
  "503 \<in> set (retryableStatusCodes (merge_retry DEFAULT_RETRY_CONFIG no_overrides))"
  by (simp add: merge_retry_def DEFAULT_RETRY_CONFIG_def no_overrides_def)

lemma empty_url_rejected:
  "\<not> valid (validateWebhookUrl (parseURL (example_env st))
       (processTemplate (Handlebars_render (example_env st))
          (url (example_config\<lparr>url := []\<rparr>)) c))"
  by (simp add: processTemplate_def validateWebhookUrl_def invalid_def)

theorem executeWebhook_attempts_invariant_witness:
  "(\<exists>as. attempts (fst (executeWebhook (example_env 500) example_config JNull 30000
                          no_overrides fresh_world)) = Some as
         \<and> as \<noteq> []
         \<and> retriesUsed (fst (executeWebhook (example_env 500) example_config JNull 30000
                          no_overrides fresh_world)) = Some (int (length as) - 1)
         \<and> length (sent (snd (executeWebhook (example_env 500) example_config JNull 30000
                          no_overrides fresh_world))) = length (sent fresh_world) + length as)
   \<and> attempts (fst (executeWebhook (example_env 500) (example_config\<lparr>url := []\<rparr>) JNull 30000
                       no_overrides fresh_world)) = Some []"
proof -
  from executeWebhook_attempts_invariant [where e = "example_env 500" and cfg = example_config
      and c = JNull and timeout = 30000 and retryConfig = no_overrides and w = fresh_world,
      OF refl refl refl]
    example_valid [of 500 JNull] default_maxRetries
  have "\<exists>as. attempts (fst (executeWebhook (example_env 500) example_config JNull 30000
                          no_overrides fresh_world)) = Some as
         \<and> as \<noteq> []
         \<and> retriesUsed (fst (executeWebhook (example_env 500) example_config JNull 30000
                          no_overrides fresh_world)) = Some (int (length as) - 1)
         \<and> length (sent (snd (executeWebhook (example_env 500) example_config JNull 30000
                          no_overrides fresh_world))) = length (sent fresh_world) + length as"
    by simp
  moreover
  from executeWebhook_attempts_invariant [where e = "example_env 500"
      and cfg = "example_config\<lparr>url := []\<rparr>" and c = JNull and timeout = 30000
      and retryConfig = no_overrides and w = fresh_world, OF refl refl refl]
    empty_url_rejected [of 500 JNull]
  have "attempts (fst (executeWebhook (example_env 500) (example_config\<lparr>url := []\<rparr>) JNull 30000
                       no_overrides fresh_world)) = Some []"
    by simp
  ultimately show ?thesis by simp
qed

text \<open>
  A destination that answers every request with the same retryable status code outside
  [200, 300): the loop runs through every index up to \<open>maxRetries\<close>.
\<close>

lemma retry_loop_always_failing:
  assumes "\<forall>n request. \<exists>d. axios e n request = AxResponse st d"
    and "\<not> (200 \<le> st \<and> st < 300)" and "st \<noteq> 0"
    and "st \<in> set (retryableStatusCodes retry)"
    and "i \<le> maxRetries retry" and "int (length atts) = i"
  shows "\<exists>as res. fst (retry_loop e cfg ctx timeout retry i atts lastResult w)
              = \<lparr>outcome = Some res, attempts = Some as,
                 retriesUsed = Some (maxRetries retry), maxRetriesReached = Some True\<rparr>
            \<and> int (length as) = maxRetries retry + 1
            \<and> status res = Error \<and> \<not> success res \<and> httpStatusCode res = Some st
            \<and> length (sent (snd (retry_loop e cfg ctx timeout retry i atts lastResult w)))
                = length (sent w) + (length as - length atts)"
  using assms
proof (induction e cfg ctx timeout retry i atts lastResult w rule: retry_loop.induct)
  case (1 e cfg ctx timeout retry i atts lastResult w)
  let ?w1 = "if i > 0 then sleep (calculateBackoffDelay (Math_pow e)
                                (Math_random e (length (slept w))) (nat (i - 1)) retry) w else w"
  let ?rw = "executeSingleRequest e cfg ctx timeout True ?w1"
  let ?res = "fst ?rw"
  let ?atts = "atts @ [\<lparr>attempt = i + 1, a_status = status ?res,
                              a_httpStatusCode = httpStatusCode ?res,
                              a_errorMessage = errorMessage ?res\<rparr>]"
  obtain d where d: "axios e (length (sent ?w1)) (buildRequest e cfg ctx timeout) = AxResponse st d"
    using "1.prems"(1) by blast
  have res: "?res = classifyOutcome e timeout (AxResponse st d)"
    by (simp add: executeSingleRequest_skip d)
  have fails: "\<not> success ?res" "status ?res = Error" "httpStatusCode ?res = Some st"
    "err ?res = None"
    using "1.prems"(2) unfolding res by (simp_all add: classifyOutcome_def Let_def)
  have retryable: "isRetryable ?res (err ?res) retry"
    using fails "1.prems"(3,4) by (simp add: isRetryable_def)
  have sent1: "length (sent (snd ?rw)) = Suc (length (sent w))"
    by (simp add: sent_executeSingleRequest_skip sent_sleep)
  show ?case
  proof (cases "i < maxRetries retry")
    case True
    then have eq: "retry_loop e cfg ctx timeout retry i atts lastResult w
                 = retry_loop e cfg ctx timeout retry (i + 1) ?atts (Some ?res) (snd ?rw)"
      using fails(1) retryable by (subst retry_loop.simps) (simp add: Let_def)
    have "\<exists>as res. fst (retry_loop e cfg ctx timeout retry (i + 1) ?atts (Some ?res) (snd ?rw))
              = \<lparr>outcome = Some res, attempts = Some as,
                 retriesUsed = Some (maxRetries retry), maxRetriesReached = Some True\<rparr>
            \<and> int (length as) = maxRetries retry + 1
            \<and> status res = Error \<and> \<not> success res \<and> httpStatusCode res = Some st
            \<and> length (sent (snd (retry_loop e cfg ctx timeout retry (i + 1) ?atts (Some ?res)
                                    (snd ?rw))))
                = length (sent (snd ?rw)) + (length as - length ?atts)"
      using True "1.prems" fails(1) retryable
      by (intro "1.IH") (auto simp add: Let_def)
    then obtain as res where
      a: "fst (retry_loop e cfg ctx timeout retry (i + 1) ?atts (Some ?res) (snd ?rw))
              = \<lparr>outcome = Some res, attempts = Some as,
                 retriesUsed = Some (maxRetries retry), maxRetriesReached = Some True\<rparr>"
      and b: "int (length as) = maxRetries retry + 1"
      and c: "status res = Error" "\<not> success res" "httpStatusCode res = Some st"
      and s: "length (sent (snd (retry_loop e cfg ctx timeout retry (i + 1) ?atts (Some ?res)
                                   (snd ?rw))))
                = length (sent (snd ?rw)) + (length as - length ?atts)"
      by blast
    have len: "length atts + 1 < length as"
      using b True "1.prems"(6) by auto
    have s': "length (sent (snd (retry_loop e cfg ctx timeout retry i atts lastResult w)))
                = length (sent w) + (length as - length atts)"
      unfolding eq s sent1 using len by simp
    from a b c s' show ?thesis unfolding eq by blast
  next
    case False
    with "1.prems"(5) have last: "i = maxRetries retry" by simp
    have eq: "retry_loop e cfg ctx timeout retry i atts lastResult w
          = (\<lparr>outcome = Some ?res, attempts = Some ?atts,
               retriesUsed = Some (int (length ?atts) - 1),
               maxRetriesReached = Some (int (length ?atts) > maxRetries retry)\<rparr>, snd ?rw)"
      using fails(1) last by (subst retry_loop.simps) (simp add: Let_def)
    show ?thesis
      unfolding eq using fails sent1 last "1.prems"(6)
      by (intro exI [of _ ?atts] exI [of _ ?res]) auto
  qed
qed

text \<open>
  C4.  With a URL that passes validation, a destination that answers 503 to every request
  and a merged policy with \<open>maxRetries = 3\<close> whose retryable status codes contain 503,
  the dispatch issues exactly 4 requests and records 4 attempts, reports
  \<open>retriesUsed = 3\<close> (the number of attempts after the first) and ends with status
  \<open>error\<close>.
\<close>

theorem executeWebhook_always_503:
  assumes "valid (validateWebhookUrl (parseURL e)
                    (processTemplate (Handlebars_render e) (url cfg) c))"
    and "retry = merge_retry DEFAULT_RETRY_CONFIG retryConfig"
    and "maxRetries retry = 3"
    and "503 \<in> set (retryableStatusCodes retry)"
    and "\<forall>n request. \<exists>d. axios e n request = AxResponse 503 d"
    and "R = executeWebhook e cfg c timeout retryConfig w"
  shows "\<exists>as res. attempts (fst R) = Some as \<and> length as = 4
            \<and> length (sent (snd R)) = length (sent w) + 4
            \<and> retriesUsed (fst R) = Some 3
            \<and> int (length as) - 1 = 3
            \<and> outcome (fst R) = Some res \<and> status res = Error \<and> \<not> success res"
proof -
  have R: "R = retry_loop e cfg c timeout retry 0 [] None w"
    using assms(1,2,3,6) by (simp add: executeWebhook_def Let_def)
  have "(0::int) \<le> maxRetries retry" using assms(3) by simp
  from retry_loop_always_failing [OF assms(5) _ _ assms(4) this, of "[]" cfg c timeout None w]
  obtain as res where
    a: "fst R = \<lparr>outcome = Some res, attempts = Some as,
                 retriesUsed = Some (maxRetries retry), maxRetriesReached = Some True\<rparr>"
    and b: "int (length as) = maxRetries retry + 1"
    and c: "status res = Error" "\<not> success res"
    and s: "length (sent (snd R))
              = length (sent w) + (length as - length ([]::attempt_record list))"
    unfolding R by auto
  from b assms(3) have "length as = 4" by simp
  with a c s assms(3) show ?thesis by simp
qed

theorem executeWebhook_always_503_witness:
  "\<exists>as res.
      attempts (fst (executeWebhook (example_env 503) example_config JNull 30000 no_overrides
                       fresh_world)) = Some as
      \<and> length as = 4
      \<and> length (sent (snd (executeWebhook (example_env 503) example_config JNull 30000
                              no_overrides fresh_world))) = length (sent fresh_world) + 4
      \<and> retriesUsed (fst (executeWebhook (example_env 503) example_config JNull 30000
                             no_overrides fresh_world)) = Some 3
      \<and> int (length as) - 1 = 3
      \<and> outcome (fst (executeWebhook (example_env 503) example_config JNull 30000 no_overrides
                         fresh_world)) = Some res
      \<and> status res = Error \<and> \<not> success res"
proof (rule executeWebhook_always_503 [OF example_valid refl default_maxRetries
         default_retries_503 _ refl])
  show "\<forall>n request. \<exists>d. axios (example_env 503) n request = AxResponse 503 d"
    by (simp add: example_env_def)
qed

section \<open>Template renderer: missing paths and malformed templates\<close>

lemma render_absent: "resolve p c = None \<Longrightarrow> render_token print c (Placeholder p) = []"
  by (simp add: render_token_def)

lemma concat_render_drop_absent:
  "concat (map (render_token print c)
       (filter (\<lambda>tok. case tok of Placeholder p \<Rightarrow> resolve p c \<noteq> None | Text s \<Rightarrow> True) toks))
   = concat (map (render_token print c) toks)"
proof (induction toks)
  case Nil
  then show ?case by simp
next
  case (Cons tok toks)
  then show ?case by (cases tok) (simp_all add: render_absent del: not_None_eq)
qed

lemmas template_eval = hb_render_def render_token_def parse_path_def trim_def is_word_char_def

text \<open>
  C7.  With the template engine modelled after the specification: a template that parses
  renders as its tokens with every placeholder whose path is absent from the context
  left out, so such a placeholder contributes the empty string and one whose path leads
  to a string contributes that string; a template that does not parse is returned
  unchanged.  And for any engine whatever, a template on which the engine throws is
  returned unchanged by \<^verbatim>\<open>processTemplate\<close>.
\<close>

theorem processTemplate_silent_miss:
  "(hb_lex False [] t = Some toks \<longrightarrow>
      processTemplate (hb_render print) t c =
        concat (map (render_token print c)
          (filter (\<lambda>tok. case tok of Placeholder p \<Rightarrow> resolve p c \<noteq> None | Text s \<Rightarrow> True)
             toks)))
   \<and> (resolve p c = None \<longrightarrow> render_token print c (Placeholder p) = [])
   \<and> (resolve p c = Some (JStr s) \<longrightarrow> render_token print c (Placeholder p) = s)
   \<and> (hb_lex False [] t = None \<longrightarrow> processTemplate (hb_render print) t c = t)
   \<and> (hb t c = None \<longrightarrow> processTemplate hb t c = t)"
proof -
  have "processTemplate (hb_render print) t c = concat (map (render_token print c) toks)"
    if "hb_lex False [] t = Some toks"
  proof (cases "t = []")
    case True
    with that show ?thesis by (auto simp add: processTemplate_def render_token_def)
  next
    case False
    with that show ?thesis by (simp add: processTemplate_def hb_render_def)
  qed
  then show ?thesis
    by (simp add: concat_render_drop_absent processTemplate_def hb_render_def render_token_def)
qed

theorem processTemplate_silent_miss_witness:
  "processTemplate (hb_render (\<lambda>v. [])) ''Hi {{missing.path}}, {{object.name}}!''
      (JObj [(''object'', JObj [(''name'', JStr ''Acme'')])]) = ''Hi , Acme!''
   \<and> processTemplate (hb_render (\<lambda>v. [])) ''{{object.name''
      (JObj [(''object'', JObj [(''name'', JStr ''Acme'')])]) = ''{{object.name''"
proof -
  let ?c = "JObj [(''object'', JObj [(''name'', JStr ''Acme'')])]"
  have lex: "hb_lex False [] ''Hi {{missing.path}}, {{object.name}}!''
           = Some [Text ''Hi '', Placeholder [''missing'', ''path''], Text '', '',
                   Placeholder [''object'', ''name''], Text ''!'']"
    by (simp add: template_eval)
  have bad: "hb_lex False [] ''{{object.name'' = None"
    by simp
  from processTemplate_silent_miss [of "''Hi {{missing.path}}, {{object.name}}!''" _
      "\<lambda>v. []" ?c "[]" "[]" "\<lambda>t c. None"] lex
  have "processTemplate (hb_render (\<lambda>v. [])) ''Hi {{missing.path}}, {{object.name}}!'' ?c
          = ''Hi , Acme!''"
    by (simp add: render_token_def)
  moreover
  from processTemplate_silent_miss [of "''{{object.name''" "[]" "\<lambda>v. []" ?c "[]" "[]"
      "\<lambda>t c. None"] bad
  have "processTemplate (hb_render (\<lambda>v. [])) ''{{object.name'' ?c = ''{{object.name''"
    by simp
  ultimately show ?thesis by simp
qed

section \<open>Request builder: a structured body on GET\<close>

lemma map_of_assign_entries:
  "map_of (assign_entries src dst) = map_of dst ++ map_of (rev src)"
  unfolding assign_entries_def
proof (induction src arbitrary: dst)
  case Nil
  then show ?case by simp
next
  case (Cons kv src)
  obtain k v where kv: "kv = (k, v)" by (cases kv)
  show ?case
    by (simp add: kv Cons.IH update_conv' map_add_upd_left fun_eq_iff map_add_def
        split: option.splits)
qed

lemma map_of_rev_distinct:
  "distinct (map fst xs) \<Longrightarrow> map_of (rev xs) = map_of xs"
  by (subst map_of_inject_set) (simp_all add: rev_map [symmetric])

lemma map_of_assign_entries_distinct:
  "distinct (map fst src) \<Longrightarrow> map_of (assign_entries src dst) = map_of dst ++ map_of src"
  by (simp add: map_of_assign_entries map_of_rev_distinct)

lemma keys_assign_entries:
  "fst ` set (assign_entries src dst) = fst ` set dst \<union> fst ` set src"
proof -
  have "dom (map_of (assign_entries src dst)) = dom (map_of dst) \<union> dom (map_of (rev src))"
    by (simp add: map_of_assign_entries Un_commute)
  then show ?thesis by (simp add: dom_map_of_conv_image_fst)
qed

text \<open>The keys that a spread gives the elements of an array are distinct.\<close>

lemma digit_char_inj: "a < 10 \<Longrightarrow> b < 10 \<Longrightarrow> digit_char a = digit_char b \<Longrightarrow> a = b"
proof -
  assume a: "a < 10" and b: "b < 10" and e: "digit_char a = digit_char b"
  have d: "distinct ''0123456789''" by simp
  from a b e show "a = b"
    unfolding digit_char_def using d by (simp add: nth_eq_iff_index_eq)
qed

lemma string_of_nat_nonempty: "string_of_nat n \<noteq> []"
  by (subst string_of_nat.simps) simp

lemma string_of_nat_inj: "string_of_nat n = string_of_nat m \<Longrightarrow> n = m"
proof (induction n arbitrary: m rule: string_of_nat.induct)
  case (1 n)
  show ?case
  proof (cases "n < 10")
    case n: True
    show ?thesis
    proof (cases "m < 10")
      case True
      with n "1.prems" show ?thesis
        by (simp add: string_of_nat.simps [of n] string_of_nat.simps [of m] digit_char_inj)
    next
      case False
      with n "1.prems" string_of_nat_nonempty [of "m div 10"] show ?thesis
        by (simp add: string_of_nat.simps [of n] string_of_nat.simps [of m]
            append_eq_Cons_conv)
    qed
  next
    case n: False
    show ?thesis
    proof (cases "m < 10")
      case True
      with n "1.prems" string_of_nat_nonempty [of "n div 10"] show ?thesis
        by (simp add: string_of_nat.simps [of n] string_of_nat.simps [of m]
            Cons_eq_append_conv)
    next
      case False
      with n "1.prems" have "string_of_nat (n div 10) = string_of_nat (m div 10)"
        and "digit_char (n mod 10) = digit_char (m mod 10)"
        by (simp_all add: string_of_nat.simps [of n] string_of_nat.simps [of m])
      then have "n div 10 = m div 10" "n mod 10 = m mod 10"
        using "1.IH" [OF n] by (simp_all add: digit_char_inj)
      then show ?thesis by (metis div_mult_mod_eq)
    qed
  qed
qed

lemma distinct_array_keys: "distinct (map fst (own_entries (JArr items)))"
  by (simp add: distinct_map inj_on_def string_of_nat_inj)

lemma buildRequest_GET_structured:
  assumes "requestMethod cfg = ''GET''"
    and "processedBody e cfg c = Some pb"
    and "typeof_object pb"
  shows "req_data (buildRequest e cfg c timeout) = None"
    and "req_params (buildRequest e cfg c timeout) =
           Some (JObj (assign_entries (own_entries pb)
             (assign_entries (case renderedParams e cfg c of Some p \<Rightarrow> own_entries p
                              | None \<Rightarrow> []) [])))"
  using assms by (simp_all add: buildRequest_def Let_def)

lemma example_get_method: "requestMethod example_get_config = ''GET''"
  by (simp add: requestMethod_def example_get_config_def toUpperCase_def toUpperCase_char_def)

lemma example_get_body:
  "processedBody (example_env st) example_get_config c
     = Some (JObj [(''page'', JStr ''2''), (''q'', JStr ''x'')])"
  by (simp add: processedBody_def example_get_config_def example_env_def processTemplate_def
      template_eval)

lemma example_get_params:
  "renderedParams (example_env st) example_get_config c
     = Some (JObj [(''page'', JStr ''1''), (''limit'', JStr ''10'')])"
  by (simp add: renderedParams_def example_get_config_def example_env_def processTemplate_def
      template_eval)

text \<open>
  C8.  When the method is GET and the resolved body is an object or an array, the request
  carries no body (\<open>data\<close> stays \<open>null\<close>) and its query parameters are the merge of the
  rendered declared \<open>params\<close> and the body: their keys are exactly the keys of the two;
  the keys of the body being distinct (as those of an object are, and those of an array
  by \<open>distinct_array_keys\<close>), each carries the body's value; and each declared key that the
  body does not have keeps its declared value.
\<close>

theorem GET_structured_body_becomes_params:
  assumes "requestMethod cfg = ''GET''"
    and "processedBody e cfg c = Some pb"
    and "pb = JObj entries \<or> pb = JArr items"
    and "declared = (case renderedParams e cfg c of Some p \<Rightarrow> own_entries p | None \<Rightarrow> [])"
  shows "req_data (buildRequest e cfg c timeout) = None
       \<and> (\<exists>ps. req_params (buildRequest e cfg c timeout) = Some (JObj ps)
               \<and> fst ` set ps = fst ` set declared \<union> fst ` set (own_entries pb)
               \<and> (distinct (map fst (own_entries pb)) \<longrightarrow>
                    (\<forall>k v. (k, v) \<in> set (own_entries pb) \<longrightarrow> map_of ps k = Some v))
               \<and> (distinct (map fst declared) \<longrightarrow>
                    (\<forall>k v. (k, v) \<in> set declared \<and> k \<notin> fst ` set (own_entries pb)
                        \<longrightarrow> map_of ps k = Some v)))"
proof -
  from assms(3) have obj: "typeof_object pb" by auto
  let ?ps = "assign_entries (own_entries pb) (assign_entries declared [])"
  have params: "req_params (buildRequest e cfg c timeout) = Some (JObj ?ps)"
    unfolding assms(4) by (rule buildRequest_GET_structured(2) [OF assms(1,2) obj])
  have keys: "fst ` set ?ps = fst ` set declared \<union> fst ` set (own_entries pb)"
    by (simp add: keys_assign_entries)
  have body: "\<forall>k v. (k, v) \<in> set (own_entries pb) \<longrightarrow> map_of ?ps k = Some v"
    if "distinct (map fst (own_entries pb))"
    using that by (simp add: map_of_assign_entries_distinct map_add_Some_iff)
  have kept: "\<forall>k v. (k, v) \<in> set declared \<and> k \<notin> fst ` set (own_entries pb)
                \<longrightarrow> map_of ?ps k = Some v"
    if d: "distinct (map fst declared)"
  proof (intro allI impI)
    fix k v
    assume kv: "(k, v) \<in> set declared \<and> k \<notin> fst ` set (own_entries pb)"
    then have "map_of (rev (own_entries pb)) k = None"
      by (simp add: map_of_eq_None_iff)
    moreover from kv d have "map_of declared k = Some v" by simp
    ultimately show "map_of ?ps k = Some v"
      using d by (simp add: map_of_assign_entries map_of_rev_distinct map_add_Some_iff)
  qed
  from params keys body kept buildRequest_GET_structured(1) [OF assms(1,2) obj]
  show ?thesis by blast
qed

theorem GET_structured_body_becomes_params_witness:
  "req_data (buildRequest (example_env 200) example_get_config JNull 30000) = None
   \<and> (\<exists>ps. req_params (buildRequest (example_env 200) example_get_config JNull 30000)
              = Some (JObj ps)
          \<and> map_of ps ''page'' = Some (JStr ''2'')
          \<and> map_of ps ''q'' = Some (JStr ''x'')
          \<and> map_of ps ''limit'' = Some (JStr ''10''))"
proof -
  let ?body = "[(''page'', JStr ''2''), (''q'', JStr ''x'')]"
  let ?declared = "[(''page'', JStr ''1''), (''limit'', JStr ''10'')]"
  have declared: "?declared = (case renderedParams (example_env 200) example_get_config JNull of
                     Some p \<Rightarrow> own_entries p | None \<Rightarrow> [])"
    by (simp add: example_get_params)
  from GET_structured_body_becomes_params [OF example_get_method
      example_get_body [of 200 JNull] _ declared,
      where entries = ?body and timeout = 30000]
  obtain ps where
    none: "req_data (buildRequest (example_env 200) example_get_config JNull 30000) = None"
    and ps: "req_params (buildRequest (example_env 200) example_get_config JNull 30000)
               = Some (JObj ps)"
    and body: "distinct (map fst (own_entries (JObj ?body))) \<longrightarrow>
                 (\<forall>k v. (k, v) \<in> set (own_entries (JObj ?body)) \<longrightarrow> map_of ps k = Some v)"
    and kept: "distinct (map fst ?declared) \<longrightarrow>
                 (\<forall>k v. (k, v) \<in> set ?declared \<and> k \<notin> fst ` set (own_entries (JObj ?body))
                    \<longrightarrow> map_of ps k = Some v)"
    by blast
  from body have "map_of ps ''page'' = Some (JStr ''2'')" "map_of ps ''q'' = Some (JStr ''x'')"
    by simp_all
  moreover from kept have "map_of ps ''limit'' = Some (JStr ''10'')"
    by simp
  ultimately show ?thesis using none ps by blast
qed

text \<open>
  C10.  On a GET request with a structured body, a key that the rendered declared
  \<open>params\<close> and the body both have carries the body's value in the merged query
  parameters.
\<close>

theorem GET_body_wins_on_collision:
  assumes "requestMethod cfg = ''GET''"
    and "renderedParams e cfg c = Some declared"
    and "processedBody e cfg c = Some pb"
    and "typeof_object pb"
    and "distinct (map fst (own_entries pb))"
    and "map_of (own_entries declared) k = Some v_declared"
    and "map_of (own_entries pb) k = Some v_body"
  shows "\<exists>ps. req_params (buildRequest e cfg c timeout) = Some (JObj ps)
             \<and> map_of ps k = Some v_body"
  using buildRequest_GET_structured(2) [OF assms(1,3,4), of timeout] assms(5,7)
  by (simp add: map_of_assign_entries_distinct map_add_Some_iff)

theorem GET_body_wins_on_collision_witness:
  "map_of (own_entries (JObj [(''page'', JStr ''1''), (''limit'', JStr ''10'')])) ''page''
     = Some (JStr ''1'')
   \<and> (\<exists>ps. req_params (buildRequest (example_env 200) example_get_config JNull 30000)
              = Some (JObj ps)
          \<and> map_of ps ''page'' = Some (JStr ''2''))"
  using GET_body_wins_on_collision [OF example_get_method example_get_params [of 200 JNull]
          example_get_body [of 200 JNull],
          where k = "''page''" and v_declared = "JStr ''1''" and v_body = "JStr ''2''"
            and timeout = 30000]
  by simp

section \<open>Response extractor: a path through an inherited property\<close>

lemmas path_eval =
  getValueByPath_def js_get_def arrayMatch_def is_word_char_def is_digit_def parseInt_def
  digit_val_def

text \<open>
  C9.  The specification's \<open>outputName\<close> and \<open>path\<close> are the fields \<open>outputFieldName\<close> and
  \<open>jsonPath\<close> of a mapping, and the response body is the \<open>data\<close> of the response.
  Extracting \<^verbatim>\<open>user.tags[0]\<close> as \<^verbatim>\<open>first_tag\<close> from the body
  \<^verbatim>\<open>{user: {tags: ["a", "b"]}}\<close> yields \<^verbatim>\<open>{first_tag: "a"}\<close>, as the claim says.  But a
  mapping whose path has a missing value is not always omitted: \<^verbatim>\<open>current[part]\<close> also
  reads what the value inherits from its prototype.  The body \<^verbatim>\<open>{user: {}}\<close> has no
  \<^verbatim>\<open>constructor\<close> under \<^verbatim>\<open>user\<close>, yet the path \<^verbatim>\<open>user.constructor.name\<close> reaches the
  function \<^verbatim>\<open>Object\<close> that every object inherits and then its name, and the mapping is
  kept with the value \<^verbatim>\<open>"Object"\<close>.
\<close>

theorem extractOutputFields_keeps_inherited_property:
  assumes "proto (JObj []) ''constructor'' = Some (JFunction ''Object'')"
  shows "extractOutputFields proto
           (r\<lparr>data := Some (JObj [(''user'', JObj [(''tags'', JArr [JStr ''a'', JStr ''b''])])])\<rparr>)
           (Some [\<lparr>outputFieldName = ''first_tag'', jsonPath = ''user.tags[0]''\<rparr>])
          = [(''first_tag'', JStr ''a'')]
       \<and> own_property (JObj []) ''constructor'' = None
       \<and> extractOutputFields proto (r\<lparr>data := Some (JObj [(''user'', JObj [])])\<rparr>)
           (Some [\<lparr>outputFieldName = ''name'', jsonPath = ''user.constructor.name''\<rparr>])
          = [(''name'', JStr ''Object'')]"
  using assms by (simp add: extractOutputFields_def path_eval)

theorem extractOutputFields_keeps_inherited_property_witness:
  "extractOutputFields example_proto
     \<lparr>success = True, status = Success, httpStatusCode = Some 200,
      data = Some (JObj [(''user'', JObj [])]),
      errorMessage = None, errorCode = None, err = None\<rparr>
     (Some [\<lparr>outputFieldName = ''name'', jsonPath = ''user.constructor.name''\<rparr>])
   = [(''name'', JStr ''Object'')]"
proof -
  have "example_proto (JObj []) ''constructor'' = Some (JFunction ''Object'')"
    by (simp add: example_proto_def)
  from extractOutputFields_keeps_inherited_property [where proto = example_proto
      and r = "\<lparr>success = True, status = Success, httpStatusCode = Some 200,
                data = None, errorMessage = None, errorCode = None, err = None\<rparr>", OF this]
  show ?thesis by simp
qed

end
